theory Spec2Isabelle
  imports Complex_Main "HOL-Library.List_Lexorder"
begin

section \<open>Python values used by the sandboxed code-execution tool\<close>

text \<open>
  The development embeds \<^verbatim>\<open>src/tools/python_executor.py\<close> together with the two
  repository methods of \<^verbatim>\<open>src/database/code_execution.py\<close> it calls. A Python
  \<^verbatim>\<open>str\<close> is a sequence of Unicode code points and \<^verbatim>\<open>len\<close> counts code points,
  so a string is a list of natural numbers; \<open>py\<close> turns an ASCII literal into such a
  list. A \<^verbatim>\<open>bytes\<close> value is a list of byte values. A leading underscore of a source
  name is dropped (\<^verbatim>\<open>_sanitize_output\<close> is \<open>sanitize_output\<close>), since an identifier
  cannot start with one here.
\<close>

type_synonym pystr = "nat list"
type_synonym pybytes = "nat list"

definition py :: "string \<Rightarrow> pystr" where
  "py s = map of_char s"

text \<open>\<^verbatim>\<open>str(n)\<close> for an integer: decimal digits, with a minus sign when negative.\<close>

fun digits :: "nat \<Rightarrow> pystr" where
  "digits n = (if n < 10 then [48 + n] else digits (n div 10) @ [48 + n mod 10])"

definition str_int :: "int \<Rightarrow> pystr" where
  "str_int i = (if i < 0 then 45 # digits (nat (- i)) else digits (nat i))"

text \<open>\<^verbatim>\<open>pattern in code\<close>: the pattern occurs as a contiguous run of characters.\<close>

fun py_in :: "'a list \<Rightarrow> 'a list \<Rightarrow> bool" where
  "py_in p [] = (p = [])"
| "py_in p (c # s) = (take (length p) (c # s) = p \<or> py_in p s)"

text \<open>
  \<^verbatim>\<open>s[:m]\<close> for an integer \<open>m\<close>: the first \<open>m\<close> characters when \<open>m\<close> is not
  negative, and all but the last \<open>-m\<close> characters when it is.
\<close>

definition slice_to :: "'a list \<Rightarrow> int \<Rightarrow> 'a list" where
  "slice_to s m = (if 0 \<le> m then take (nat m) s else take (nat (int (length s) + m)) s)"

text \<open>
  \<^verbatim>\<open>str.isspace\<close> on one character and \<^verbatim>\<open>str.strip()\<close>: the code points Python
  treats as whitespace are removed from both ends.
\<close>

definition py_isspace :: "nat \<Rightarrow> bool" where
  "py_isspace c \<longleftrightarrow>
     (9 \<le> c \<and> c \<le> 13) \<or> (28 \<le> c \<and> c \<le> 32) \<or> c = 133 \<or> c = 160 \<or> c = 5760 \<or>
     (8192 \<le> c \<and> c \<le> 8202) \<or> c = 8232 \<or> c = 8233 \<or> c = 8239 \<or> c = 8287 \<or> c = 12288"

definition strip :: "pystr \<Rightarrow> pystr" where
  "strip s = rev (dropWhile py_isspace (rev (dropWhile py_isspace s)))"

text \<open>\<^verbatim>\<open>sep.join(parts)\<close>.\<close>

fun join :: "pystr \<Rightarrow> pystr list \<Rightarrow> pystr" where
  "join sep [] = []"
| "join sep [x] = x"
| "join sep (x # y # ys) = x @ sep @ join sep (y # ys)"

text \<open>
  A Python \<^verbatim>\<open>set\<close> is kept as a list without duplicates: \<open>py_set\<close> is
  \<^verbatim>\<open>set(xs)\<close>, \<open>set_minus\<close> is \<^verbatim>\<open>a - b\<close>, and \<^verbatim>\<open>list(s)\<close> is the list itself.
  The iteration order of a Python set is unspecified; the order of the list stands for
  whichever order the interpreter picks, and no property below depends on it.
\<close>

definition py_set :: "'a list \<Rightarrow> 'a list" where
  "py_set xs = remdups xs"

definition set_minus :: "'a list \<Rightarrow> 'a list \<Rightarrow> 'a list" where
  "set_minus a b = filter (\<lambda>x. x \<notin> set b) a"

text \<open>
  The message literals of the source start with a few non-ASCII code points (an emoji
  as the source file spells it). They are kept as the file has them.
\<close>

definition mark_cross :: pystr where "mark_cross = [0x201A, 0xF9, 0xE5]"
definition mark_check :: pystr where "mark_check = [0x201A, 0xFA, 0xD6]"
definition mark_output :: pystr where "mark_output = [0xF8FF, 0xFC, 0xEC, 0xA7]"
definition mark_warning :: pystr where "mark_warning = [0x201A, 0xF6, 0x2020, 0xD4, 0x220F, 0xE8]"
definition mark_files :: pystr where "mark_files = [0xF8FF, 0xFC, 0xEC, 0xC5]"
definition mark_folder :: pystr where "mark_folder = [0xF8FF, 0xFC, 0xEC, 0xC7]"
definition mark_clock :: pystr where "mark_clock = [0x201A, 0xE8, 0xB1, 0xD4, 0x220F, 0xE8]"
definition mark_disk :: pystr where "mark_disk = [0xF8FF, 0xFC, 0xED, 0xE6]"
definition mark_boom :: pystr where "mark_boom = [0xF8FF, 0xFC, 0xED, 0x2022]"

section \<open>Settings\<close>

text \<open>
  \<^verbatim>\<open>src/utils/settings.py\<close> reads the sandbox settings from the environment, each
  through \<^verbatim>\<open>int(os.getenv(...))\<close> or the like, so every integer is a possible value.
  \<open>default_settings\<close> holds the defaults of that file.
\<close>

record settings =
  WORKSPACE_DIR :: pystr
  SANDBOX_TIMEOUT :: int
  SANDBOX_MAX_OUTPUT :: int
  SANDBOX_MEMORY_LIMIT :: pystr
  SANDBOX_CPU_QUOTA :: int
  SANDBOX_NETWORK_DISABLED :: bool

definition default_settings :: settings where
  "default_settings =
     \<lparr>WORKSPACE_DIR = py ''/app/workspace'', SANDBOX_TIMEOUT = 30, SANDBOX_MAX_OUTPUT = 5000,
      SANDBOX_MEMORY_LIMIT = py ''512m'', SANDBOX_CPU_QUOTA = 50000,
      SANDBOX_NETWORK_DISABLED = True\<rparr>"

definition SANDBOX_IMAGE :: pystr where
  "SANDBOX_IMAGE = py ''python-sandbox:latest''"

section \<open>Output truncation and the safety check\<close>

definition truncation_marker :: "nat \<Rightarrow> pystr" where
  "truncation_marker n = [10, 10] @ py ''... (truncated, '' @ str_int (int n) @ py '' total chars)''"

text \<open>
  \<^verbatim>\<open>_sanitize_output(output, max_length)\<close>; the default of \<open>max_length\<close> is
  \<open>SANDBOX_MAX_OUTPUT\<close>, which the callers below pass.
\<close>

definition sanitize_output :: "pystr \<Rightarrow> int \<Rightarrow> pystr" where
  "sanitize_output output max_length =
     (if int (length output) > max_length
      then slice_to output max_length @ truncation_marker (length output)
      else output)"

definition dangerous_patterns :: "pystr list" where
  "dangerous_patterns = [py ''__import__'', py ''eval('', py ''exec('', py ''compile('']"

text \<open>
  The module also defines the list \<^verbatim>\<open>BLOCKED_PATTERNS\<close>; no function reads it.
\<close>

definition BLOCKED_PATTERNS :: "pystr list" where
  "BLOCKED_PATTERNS =
     [py ''import os'', py ''import subprocess'', py ''import sys'', py ''__import__'',
      py ''eval('', py ''exec('', py ''compile('', py ''open('']"

text \<open>
  \<^verbatim>\<open>_validate_code_safety(code)\<close>: the loop returns at the first pattern of the list
  that occurs in the code, then the two path-traversal sequences are looked for.
\<close>

definition validate_code_safety :: "pystr \<Rightarrow> bool \<times> pystr" where
  "validate_code_safety code =
     (case find (\<lambda>pattern. py_in pattern code) dangerous_patterns of
        Some pattern \<Rightarrow> (False, mark_cross @ py '' Dangerous operation detected: '' @ pattern)
      | None \<Rightarrow>
          if py_in (py ''../'') code \<or> py_in (py ''/..'') code
          then (False, mark_cross @ py '' Path traversal detected'')
          else (True, []))"

section \<open>The host: clock, container engine, workspace and database\<close>

text \<open>
  Everything outside the Python process is explicit state. The container engine is
  reached through the docker client: \<open>daemon_error\<close> is the text of the
  \<^verbatim>\<open>DockerException\<close> every client call raises while the engine is unreachable,
  \<open>image_present\<close> says whether \<open>SANDBOX_IMAGE\<close> is in the local image store,
  \<open>build_error\<close> is the error a build would end with, and \<open>builds\<close> and
  \<open>launches\<close> count the calls of \<^verbatim>\<open>client.images.build\<close> and
  \<^verbatim>\<open>client.containers.run\<close>. The workspace directory is absent or a list of
  entries with their sizes. \<open>now\<close> is the reading of \<^verbatim>\<open>time.time()\<close>, in seconds.
\<close>

record code_execution =
  ce_id :: int
  ce_session_id :: pystr
  ce_user_id :: "pystr option"
  ce_code :: pystr
  ce_stdout :: pystr
  ce_stderr :: pystr
  ce_returncode :: int
  ce_created_files :: "pystr list"
  ce_execution_time :: real

record workspace_file_metadata =
  wf_id :: int
  wf_session_id :: pystr
  wf_filename :: pystr
  wf_file_path :: pystr
  wf_file_size :: nat
  wf_file_type :: pystr
  wf_description :: "pystr option"
  wf_execution_id :: "int option"

text \<open>
  The two tables of \<^verbatim>\<open>src/database/models/code_execution_models.py\<close>, holding the
  committed rows, and the next value of each autoincrement key. The
  \<^verbatim>\<open>created_at\<close> column is left out.
\<close>

record ledger =
  code_executions :: "code_execution list"
  workspace_files :: "workspace_file_metadata list"
  next_execution_id :: int
  next_file_id :: int

record world =
  now :: real
  daemon_error :: "pystr option"
  image_present :: bool
  dockerfile_exists :: bool
  build_error :: "pystr option"
  builds :: nat
  launches :: nat
  workspace :: "(pystr \<times> nat) list option"
  database :: ledger

text \<open>
  The keyword arguments \<^verbatim>\<open>_execute_in_docker\<close> passes to
  \<^verbatim>\<open>client.containers.run\<close>: each volume is host path, bind path and mode.
\<close>

record container_config =
  image_tag :: pystr
  command :: "pystr list"
  volumes :: "(pystr \<times> pystr \<times> pystr) list"
  working_dir :: pystr
  mem_limit :: pystr
  cpu_quota :: int
  cpu_period :: int
  network_disabled :: bool
  remove :: bool
  detach :: bool
  cfg_stdout :: bool
  cfg_stderr :: bool

text \<open>
  What the guest code does once its container runs: the chunks it writes to its two
  output streams, in the order it writes them, the status it exits with, and the
  seconds it takes.
\<close>

datatype stream = Stdout | Stderr

record guest =
  writes :: "(stream \<times> pybytes) list"
  exit_status :: int
  seconds :: real

text \<open>
  How \<^verbatim>\<open>client.containers.run\<close> ends, as the source tells the cases apart. It
  returns the captured output, which is bytes, or \<^verbatim>\<open>None\<close> when the logging driver of
  the container keeps no log to read. Or it raises \<^verbatim>\<open>ContainerError\<close>, whose
  attributes in the docker client library are \<^verbatim>\<open>container\<close>, \<^verbatim>\<open>exit_status\<close>,
  \<^verbatim>\<open>command\<close>, \<^verbatim>\<open>image\<close> and \<^verbatim>\<open>stderr\<close>; the fields here are the exit status and
  \<^verbatim>\<open>stderr\<close>. Or it raises another \<^verbatim>\<open>DockerException\<close> with the given text.
\<close>

datatype run_result =
    Output "pybytes option"
  | ContainerError int "pybytes option"
  | DockerException pystr

text \<open>A Python exception that leaves a function: its class name and \<^verbatim>\<open>str(e)\<close>.\<close>

datatype exn = Exn (exn_type: pystr) (exn_text: pystr)

text \<open>
  What the outside does during one call of the tool. For the container run:
  \<open>launch_error\<close> is the error the engine answers the request with before any
  container starts (as for a missing image); \<open>guest_of\<close> is what the guest does in a
  container created from the request; \<open>logs_captured\<close> says whether the logging
  driver keeps a log the client can read; \<open>cleanup_error\<close> is the error the engine
  answers with after the container has exited, while the client reads its log or
  removes it. Then the workspace directory as the second snapshot finds it, the
  exception (if any) that the commit of the execution row and of the metadata row of
  each file raises, and the values of \<^verbatim>\<open>tempfile.gettempdir()\<close> and
  \<^verbatim>\<open>uuid.uuid4().hex\<close>.
\<close>

record scenario =
  launch_error :: "pystr option"
  guest_of :: "container_config \<Rightarrow> guest"
  logs_captured :: bool
  cleanup_error :: "pystr option"
  workspace_after :: "(pystr \<times> nat) list option"
  execution_commit_error :: "exn option"
  file_commit_error :: "pystr \<Rightarrow> exn option"
  tempdir :: pystr
  uuid4_hex :: pystr

text \<open>
  Two library functions are parameters: \<^verbatim>\<open>bytes.decode("utf-8")\<close>, which returns
  the text or raises \<^verbatim>\<open>UnicodeDecodeError\<close> (\<open>Inl\<close> of its message), and the
  rendering \<^verbatim>\<open>f"{x:.2f}"\<close> of a float.
\<close>

record pylib =
  utf8_decode :: "pybytes \<Rightarrow> pystr + pystr"
  fmt_2f :: "real \<Rightarrow> pystr"

section \<open>Provisioning the image\<close>

text \<open>
  \<^verbatim>\<open>_ensure_docker_image()\<close>. \<^verbatim>\<open>docker.from_env()\<close> and \<^verbatim>\<open>client.images.get\<close>
  raise while the engine is unreachable; \<^verbatim>\<open>ImageNotFound\<close> is raised exactly when
  the image is not in the store. A build that ends in an error has been counted as a
  build and leaves no image.
\<close>

definition ensure_docker_image :: "world \<Rightarrow> (bool \<times> pystr) \<times> world" where
  "ensure_docker_image w =
     (case daemon_error w of
        Some e \<Rightarrow> ((False, mark_cross @ py '' Docker error: '' @ e), w)
      | None \<Rightarrow>
          if image_present w then ((True, py ''Image exists''), w)
          else if \<not> dockerfile_exists w
          then ((False, mark_cross @ py '' Dockerfile.sandbox not found in project root''), w)
          else (case build_error w of
                  Some e \<Rightarrow>
                    ((False, mark_cross @ py '' Docker error: '' @ e), w\<lparr>builds := builds w + 1\<rparr>)
                | None \<Rightarrow>
                    ((True, py ''Image built successfully''),
                     w\<lparr>builds := builds w + 1, image_present := True\<rparr>)))"

section \<open>Running the code in a container\<close>

text \<open>
  The dictionary \<^verbatim>\<open>_execute_in_docker\<close> returns, one field for each key. The value
  under \<^verbatim>\<open>"stdout"\<close> is a string, or \<^verbatim>\<open>None\<close> when the client returned \<^verbatim>\<open>None\<close> and
  the source passed it on.
\<close>

record run_dict =
  dict_stdout :: "pystr option"
  dict_stderr :: pystr
  dict_returncode :: int

definition container_config_of :: "settings \<Rightarrow> pystr \<Rightarrow> container_config" where
  "container_config_of cfg script_path =
     \<lparr>image_tag = SANDBOX_IMAGE,
      command = [py ''python'', py ''/tmp/script.py''],
      volumes = [(WORKSPACE_DIR cfg, py ''/workspace'', py ''rw''),
                 (script_path, py ''/tmp/script.py'', py ''ro'')],
      working_dir = py ''/workspace'',
      mem_limit = SANDBOX_MEMORY_LIMIT cfg,
      cpu_quota = SANDBOX_CPU_QUOTA cfg,
      cpu_period = 100000,
      network_disabled = SANDBOX_NETWORK_DISABLED cfg,
      remove = True,
      detach = False,
      cfg_stdout = True,
      cfg_stderr = True\<rparr>"

text \<open>
  \<^verbatim>\<open>client.containers.run\<close> of the docker client library, for a request that is
  neither detached nor streamed, as the one of the source. This is the library the
  source calls, not code of the repository; the definition follows what the library
  does. The engine may refuse the request before a container starts. Otherwise the
  guest runs to its end and the call blocks for that long; the client then reads the
  log and, as \<^verbatim>\<open>remove\<close> asks, removes the container, and the engine may answer either
  with an error. When the guest exited with a status other than 0 the client raises
  \<^verbatim>\<open>ContainerError\<close> with the log of the stderr stream. When it exited with 0 the
  client returns the chunks of the streams the request asks for (\<^verbatim>\<open>stdout\<close>,
  \<^verbatim>\<open>stderr\<close>), joined in the order they were written.
\<close>

definition captured :: "container_config \<Rightarrow> guest \<Rightarrow> pybytes" where
  "captured c g =
     concat (map snd (filter (\<lambda>(s, b). (s = Stdout \<and> cfg_stdout c) \<or> (s = Stderr \<and> cfg_stderr c))
                        (writes g)))"

definition containers_run :: "scenario \<Rightarrow> container_config \<Rightarrow> run_result \<times> real" where
  "containers_run scn c =
     (case launch_error scn of
        Some e \<Rightarrow> (DockerException e, 0)
      | None \<Rightarrow>
          let g = guest_of scn c
          in (case cleanup_error scn of
                Some e \<Rightarrow> (DockerException e, seconds g)
              | None \<Rightarrow>
                  if exit_status g \<noteq> 0
                  then (ContainerError (exit_status g)
                          (Some (concat (map snd (filter (\<lambda>(s, b). s = Stderr) (writes g))))),
                        seconds g)
                  else (Output (if logs_captured scn then Some (captured c g) else None),
                        seconds g)))"

text \<open>
  The text of the \<^verbatim>\<open>AttributeError\<close> Python raises when \<open>attr\<close> is read on an
  object of class \<open>cls\<close> that has no such attribute.
\<close>

definition no_attribute :: "string \<Rightarrow> string \<Rightarrow> pystr" where
  "no_attribute cls attr =
     [39] @ py cls @ [39] @ py '' object has no attribute '' @ [39] @ py attr @ [39]"

text \<open>
  \<^verbatim>\<open>_execute_in_docker(code, script_path)\<close>. The call of \<^verbatim>\<open>containers.run\<close> blocks
  (\<^verbatim>\<open>detach\<close> is false) for as long as the engine takes; the clock advances by that
  time, and afterwards the workspace is what the run left. The returned output is
  decoded when it is bytes and passed on as it is otherwise. In the handler of
  \<^verbatim>\<open>ContainerError\<close> the first thing evaluated is \<^verbatim>\<open>e.stdout\<close>, an attribute the
  exception does not have. That \<^verbatim>\<open>AttributeError\<close>, like a
  \<^verbatim>\<open>UnicodeDecodeError\<close>, is not a \<^verbatim>\<open>DockerException\<close> and leaves the function.
\<close>

definition execute_in_docker ::
  "pylib \<Rightarrow> settings \<Rightarrow> scenario \<Rightarrow> pystr \<Rightarrow> pystr \<Rightarrow> world \<Rightarrow> (exn + run_dict) \<times> world" where
  "execute_in_docker lib cfg scn code script_path w =
     (case daemon_error w of
        Some e \<Rightarrow>
          (Inr \<lparr>dict_stdout = Some [], dict_stderr = py ''Docker execution error: '' @ e,
                dict_returncode = -1\<rparr>, w)
      | None \<Rightarrow>
          let (res, elapsed) = containers_run scn (container_config_of cfg script_path);
              w' = w\<lparr>launches := launches w + 1, now := now w + elapsed,
                     workspace := workspace_after scn\<rparr>
          in (case res of
                Output out \<Rightarrow>
                  (case out of
                     None \<Rightarrow>
                       (Inr \<lparr>dict_stdout = None, dict_stderr = [], dict_returncode = 0\<rparr>, w')
                   | Some bs \<Rightarrow>
                       (case utf8_decode lib bs of
                          Inl m \<Rightarrow> (Inl (Exn (py ''UnicodeDecodeError'') m), w')
                        | Inr t \<Rightarrow>
                            (Inr \<lparr>dict_stdout = Some t, dict_stderr = [],
                                  dict_returncode = 0\<rparr>, w')))
              | ContainerError status e_stderr \<Rightarrow>
                  (Inl (Exn (py ''AttributeError'') (no_attribute ''ContainerError'' ''stdout'')),
                   w')
              | DockerException e \<Rightarrow>
                  (Inr \<lparr>dict_stdout = Some [],
                        dict_stderr = py ''Docker execution error: '' @ e,
                        dict_returncode = -1\<rparr>, w')))"

section \<open>Writing to the database\<close>

text \<open>
  \<^verbatim>\<open>ExecutionRepository.save_execution\<close> and
  \<^verbatim>\<open>WorkspaceRepository.save_file_metadata\<close>: each builds one row, adds it and calls
  \<^verbatim>\<open>db.commit()\<close> itself, so the row is durable when the method returns. The first
  argument is the exception that commit raises, if any; then the row is not stored.
\<close>

definition ExecutionRepository_save_execution ::
  "exn option \<Rightarrow> ledger \<Rightarrow> pystr \<Rightarrow> pystr \<Rightarrow> pystr \<Rightarrow> pystr \<Rightarrow> int \<Rightarrow> pystr list \<Rightarrow> real \<Rightarrow>
   pystr option \<Rightarrow> exn + code_execution \<times> ledger" where
  "ExecutionRepository_save_execution fault db session_id code stdout stderr returncode
     created_files execution_time user_id =
     (case fault of
        Some e \<Rightarrow> Inl e
      | None \<Rightarrow>
          let execution =
                \<lparr>ce_id = next_execution_id db, ce_session_id = session_id, ce_user_id = user_id,
                 ce_code = code, ce_stdout = stdout, ce_stderr = stderr,
                 ce_returncode = returncode, ce_created_files = created_files,
                 ce_execution_time = execution_time\<rparr>
          in Inr (execution,
                  db\<lparr>code_executions := code_executions db @ [execution],
                     next_execution_id := next_execution_id db + 1\<rparr>))"

definition WorkspaceRepository_save_file_metadata ::
  "exn option \<Rightarrow> ledger \<Rightarrow> pystr \<Rightarrow> pystr \<Rightarrow> pystr \<Rightarrow> nat \<Rightarrow> pystr \<Rightarrow> pystr option \<Rightarrow>
   int option \<Rightarrow> exn + workspace_file_metadata \<times> ledger" where
  "WorkspaceRepository_save_file_metadata fault db session_id filename file_path file_size
     file_type description execution_id =
     (case fault of
        Some e \<Rightarrow> Inl e
      | None \<Rightarrow>
          let file_meta =
                \<lparr>wf_id = next_file_id db, wf_session_id = session_id, wf_filename = filename,
                 wf_file_path = file_path, wf_file_size = file_size, wf_file_type = file_type,
                 wf_description = description, wf_execution_id = execution_id\<rparr>
          in Inr (file_meta,
                  db\<lparr>workspace_files := workspace_files db @ [file_meta],
                     next_file_id := next_file_id db + 1\<rparr>))"

text \<open>
  \<^verbatim>\<open>Path.suffix\<close> of a file name, as \<^verbatim>\<open>pathlib\<close> computes it from the last dot,
  and the file type \<^verbatim>\<open>suffix.lstrip('.') or 'unknown'\<close>.
\<close>

definition path_suffix :: "pystr \<Rightarrow> pystr" where
  "path_suffix name =
     (case find (\<lambda>i. name ! i = 46) (rev [0..<length name]) of
        None \<Rightarrow> []
      | Some i \<Rightarrow> if 0 < i \<and> i + 1 < length name then drop i name else [])"

definition file_type_of :: "pystr \<Rightarrow> pystr" where
  "file_type_of filename =
     (let t = dropWhile (\<lambda>c. c = 46) (path_suffix filename)
      in if t = [] then py ''unknown'' else t)"

definition stat_size :: "(pystr \<times> nat) list option \<Rightarrow> pystr \<Rightarrow> nat option" where
  "stat_size ws filename = (case ws of None \<Rightarrow> None | Some entries \<Rightarrow> map_of entries filename)"

text \<open>
  \<^verbatim>\<open>_save_file_metadata(session_id, filename, execution_id)\<close>: nothing is written
  for a file that is not in the workspace; the row is written in a database session of
  its own, and any exception is caught and printed.
\<close>

definition save_file_metadata :: "scenario \<Rightarrow> pystr \<Rightarrow> pystr \<Rightarrow> int option \<Rightarrow> world \<Rightarrow> world" where
  "save_file_metadata scn session_id filename execution_id w =
     (case stat_size (workspace w) filename of
        None \<Rightarrow> w
      | Some file_size \<Rightarrow>
          (case WorkspaceRepository_save_file_metadata (file_commit_error scn filename)
                  (database w) session_id filename filename file_size (file_type_of filename)
                  None execution_id of
             Inl e \<Rightarrow> w
           | Inr (file_meta, db') \<Rightarrow> w\<lparr>database := db'\<rparr>))"

text \<open>
  The block \<^verbatim>\<open># Save to database\<close> of \<^verbatim>\<open>run_python_code\<close>: the execution row is
  saved, then \<^verbatim>\<open>_save_file_metadata\<close> is called for each new file in turn. When saving
  the execution row raises, the exception is caught and printed and
  \<^verbatim>\<open>execution_id\<close> stays \<^verbatim>\<open>None\<close>.
\<close>

definition save_to_database ::
  "scenario \<Rightarrow> pystr \<Rightarrow> pystr \<Rightarrow> pystr \<Rightarrow> pystr \<Rightarrow> int \<Rightarrow> pystr list \<Rightarrow> real \<Rightarrow> world \<Rightarrow>
   int option \<times> world" where
  "save_to_database scn session_id code stdout stderr returncode new_files execution_time w =
     (case ExecutionRepository_save_execution (execution_commit_error scn) (database w)
             session_id code stdout stderr returncode new_files execution_time None of
        Inl e \<Rightarrow> (None, w)
      | Inr (execution, db') \<Rightarrow>
          (Some (ce_id execution),
           fold (\<lambda>filename. save_file_metadata scn session_id filename (Some (ce_id execution)))
             new_files (w\<lparr>database := db'\<rparr>)))"

section \<open>The tool\<close>

text \<open>
  The block \<^verbatim>\<open># Build response\<close> of \<^verbatim>\<open>run_python_code\<close>: the list
  \<^verbatim>\<open>response_parts\<close> as the appends fill it, and the summary
  \<^verbatim>\<open>"\n".join(response_parts)\<close>.
\<close>

definition response_parts ::
  "pylib \<Rightarrow> settings \<Rightarrow> int \<Rightarrow> pystr \<Rightarrow> pystr \<Rightarrow> pystr list \<Rightarrow> real \<Rightarrow> int option \<Rightarrow> pystr list" where
  "response_parts lib cfg returncode stdout stderr new_files execution_time execution_id =
     [if returncode = 0
      then mark_check @ py '' Code executed successfully in Docker sandbox.''
      else mark_cross @ py '' Code execution failed with exit code '' @ str_int returncode
             @ py ''.'']
     @ (if stdout \<noteq> []
        then [[10] @ mark_output @ py '' Output:'' @ [10]
                @ sanitize_output stdout (SANDBOX_MAX_OUTPUT cfg)]
        else [])
     @ (if stderr \<noteq> []
        then [[10] @ mark_warning @ py '' Errors/Warnings:'' @ [10]
                @ sanitize_output stderr (SANDBOX_MAX_OUTPUT cfg)]
        else [])
     @ (if new_files \<noteq> []
        then [[10] @ mark_files @ py '' Created files: '' @ join (py '', '') (sort new_files),
              mark_folder @ py '' Files saved in: '' @ WORKSPACE_DIR cfg]
        else [])
     @ [[10] @ mark_clock @ py '' Execution time: '' @ fmt_2f lib execution_time @ py ''s'',
        mark_disk @ py '' Results stored (ID: ''
          @ (case execution_id of None \<Rightarrow> py ''None'' | Some i \<Rightarrow> str_int i) @ py '')'']"

definition build_response ::
  "pylib \<Rightarrow> settings \<Rightarrow> int \<Rightarrow> pystr \<Rightarrow> pystr \<Rightarrow> pystr list \<Rightarrow> real \<Rightarrow> int option \<Rightarrow> pystr" where
  "build_response lib cfg returncode stdout stderr new_files execution_time execution_id =
     join [10]
       (response_parts lib cfg returncode stdout stderr new_files execution_time execution_id)"

definition listdir :: "(pystr \<times> nat) list option \<Rightarrow> pystr list" where
  "listdir ws = (case ws of None \<Rightarrow> [] | Some entries \<Rightarrow> py_set (map fst entries))"

text \<open>The path of the temporary script, named with the first eight digits of a UUID.\<close>

definition script_path_of :: "scenario \<Rightarrow> pystr" where
  "script_path_of scn =
     (let script_id = take 8 (uuid4_hex scn)
      in tempdir scn @ py ''/sandbox_script_'' @ script_id @ py ''.py'')"

text \<open>
  The last handler of \<^verbatim>\<open>run_python_code\<close>, \<^verbatim>\<open>except Exception as e\<close>: the message
  it returns for an exception raised in the body.
\<close>

definition execution_error :: "exn \<Rightarrow> pystr" where
  "execution_error e =
     mark_boom @ py '' Execution error: '' @ exn_type e @ py '': '' @ exn_text e"

text \<open>
  \<^verbatim>\<open>run_python_code(code, session_id)\<close>: the summary it returns and the host as it
  leaves it. \<open>listdir\<close> is \<^verbatim>\<open>set(os.listdir(WORKSPACE_DIR))\<close> when the directory
  exists and the empty set otherwise. \<^verbatim>\<open>result["stdout"].strip()\<close> raises
  \<^verbatim>\<open>AttributeError\<close> when the value is \<^verbatim>\<open>None\<close>. The temporary script is written
  before the run and removed after it; its content plays no part below and the file is
  not kept in the state.
\<close>

definition run_python_code ::
  "pylib \<Rightarrow> settings \<Rightarrow> scenario \<Rightarrow> pystr \<Rightarrow> pystr \<Rightarrow> world \<Rightarrow> pystr \<times> world" where
  "run_python_code lib cfg scn code session_id w =
     (let start_time = now w;
          (is_safe, error_msg) = validate_code_safety code
      in if \<not> is_safe then (error_msg, w)
         else
           let ((image_ok, image_msg), w1) = ensure_docker_image w
           in if \<not> image_ok
              then (image_msg @ [10, 10]
                      @ py ''Please ensure Docker is installed and Dockerfile.sandbox exists.'',
                    w1)
              else
                let files_before = listdir (workspace w1);
                    script_path = script_path_of scn
                in (case execute_in_docker lib cfg scn code script_path w1 of
                      (Inl e, w2) \<Rightarrow> (execution_error e, w2)
                    | (Inr result, w2) \<Rightarrow>
                        (case dict_stdout result of
                           None \<Rightarrow>
                             (execution_error
                                (Exn (py ''AttributeError'') (no_attribute ''NoneType'' ''strip'')),
                              w2)
                         | Some raw \<Rightarrow>
                             let stdout = strip raw;
                                 stderr = strip (dict_stderr result);
                                 returncode = dict_returncode result;
                                 files_after = listdir (workspace w2);
                                 new_files = set_minus files_after files_before;
                                 execution_time = now w2 - start_time;
                                 (execution_id, w3) =
                                   save_to_database scn session_id code stdout stderr
                                     returncode new_files execution_time w2
                             in (build_response lib cfg returncode stdout stderr new_files
                                   execution_time execution_id,
                                 w3))))"

section \<open>Example hosts\<close>

text \<open>
  A host with an empty database, a reachable engine, the image built and an empty
  workspace directory; the concrete runs below start from it.
\<close>

definition empty_ledger :: ledger where
  "empty_ledger =
     \<lparr>code_executions = [], workspace_files = [], next_execution_id = 1, next_file_id = 1\<rparr>"

definition ready_host :: world where
  "ready_host =
     \<lparr>now = 0, daemon_error = None, image_present = True, dockerfile_exists = True,
      build_error = None, builds = 0, launches = 0, workspace = Some [],
      database = empty_ledger\<rparr>"

text \<open>
  Library functions for the concrete runs: a decoder that agrees with UTF-8 on ASCII
  bytes, which is all the examples print, and the two-decimal rendering of a whole
  number of seconds, which is all the examples take.
\<close>

definition ascii_lib :: pylib where
  "ascii_lib =
     \<lparr>utf8_decode = (\<lambda>bs. if list_all (\<lambda>b. b < 128) bs then Inr bs
                             else Inl (py ''invalid start byte'')),
      fmt_2f = (\<lambda>x. str_int \<lfloor>x\<rfloor> @ py ''.00'')\<rparr>"

text \<open>
  A guest that prints \<open>out\<close> to its stdout stream and exits with status 0 after
  \<open>secs\<close> seconds. A call during which the guest \<open>g\<close> runs in the container and the
  workspace is \<open>ws\<close> afterwards, with an engine that answers without error and keeps
  the log, and a database that accepts every commit.
\<close>

definition prints :: "pybytes \<Rightarrow> real \<Rightarrow> guest" where
  "prints out secs = \<lparr>writes = [(Stdout, out)], exit_status = 0, seconds = secs\<rparr>"

definition scenario_of :: "guest \<Rightarrow> (pystr \<times> nat) list option \<Rightarrow> scenario" where
  "scenario_of g ws =
     \<lparr>launch_error = None, guest_of = (\<lambda>c. g), logs_captured = True, cleanup_error = None,
      workspace_after = ws, execution_commit_error = None, file_commit_error = (\<lambda>f. None),
      tempdir = py ''/tmp'', uuid4_hex = py ''9f1c2ab47d3e4c0e8a55b2d6f0e1c3a7''\<rparr>"

text \<open>
  Four calls used as examples: one during which the commit of the metadata row of
  \<^verbatim>\<open>b.csv\<close> fails while the guest has written two files; one during which the commit of
  the execution row fails; one whose guest prints 6000 characters; and one whose guest
  sleeps for 60 seconds before it prints and exits with status 0.
\<close>

definition metadata_commit_fails :: scenario where
  "metadata_commit_fails =
     (scenario_of (prints (py ''saved'' @ [10]) 1)
        (Some [(py ''a.csv'', 10), (py ''b.csv'', 20)]))
       \<lparr>file_commit_error :=
          (\<lambda>f. if f = py ''b.csv''
                then Some (Exn (py ''OperationalError'') (py ''connection lost'')) else None)\<rparr>"


definition long_output :: scenario where
  "long_output = scenario_of (prints (replicate 6000 97) 1) (Some [])"

definition slow_guest :: scenario where
  "slow_guest = scenario_of (prints (py ''1'' @ [10]) 60) (Some [])"

definition sleep_code :: pystr where
  "sleep_code = py ''import time'' @ [10] @ py ''time.sleep(60)'' @ [10] @ py ''print(1)''"


definition fails_with_1 :: guest where
  "fails_with_1 =
     \<lparr>writes = [(Stderr, py ''ZeroDivisionError: division by zero'' @ [10])],
      exit_status = 1, seconds = 2\<rparr>"

definition removal_fails :: scenario where
  "removal_fails =
     (scenario_of fails_with_1 (Some [(py ''a.csv'', 10)]))
       \<lparr>cleanup_error := Some (py ''409 Client Error: Conflict'')\<rparr>"


text \<open>
  A host whose workspace already holds a file, and a call whose guest adds
  \<^verbatim>\<open>plot.png\<close> to it.
\<close>

definition writes_plot :: scenario where
  "writes_plot =
     scenario_of (prints (py ''Plot created'' @ [10]) 2)
       (Some [(py ''old.txt'', 5), (py ''plot.png'', 4096)])"

definition host_with_file :: world where
  "host_with_file = ready_host\<lparr>workspace := Some [(py ''old.txt'', 5)]\<rparr>"

section \<open>Auxiliary facts\<close>

declare digits.simps [simp del]

lemma length_py: "length (py s) = length s"
  by (simp add: py_def)

lemma set_minus_set: "set (set_minus a b) = set a - set b"
  by (auto simp: set_minus_def)

lemma distinct_listdir: "distinct (listdir ws)"
  by (simp add: listdir_def py_set_def split: option.splits)

lemma distinct_set_minus: "distinct a \<Longrightarrow> distinct (set_minus a b)"
  by (simp add: set_minus_def)

lemma ensure_docker_image_present: "image_present w \<Longrightarrow> snd (ensure_docker_image w) = w"
  by (simp add: ensure_docker_image_def split: option.splits)

lemma ensure_docker_image_success:
  "fst (fst (ensure_docker_image w)) \<Longrightarrow> image_present (snd (ensure_docker_image w))"
  by (simp add: ensure_docker_image_def split: option.splits if_splits)

section \<open>The output governor\<close>

text \<open>
  C7, as amended. For every text and every bound \<open>max_length \<ge> 0\<close>,
  \<open>sanitize_output\<close> returns the text unchanged when it is no longer than the bound,
  and otherwise the first \<open>max_length\<close> characters followed by the marker that states
  the original length; so the result is never longer than the bound plus the marker.
\<close>

theorem sanitize_output_bound:
  assumes "0 \<le> max_length"
  shows "(int (length output) \<le> max_length \<longrightarrow> sanitize_output output max_length = output) \<and>
         (int (length output) > max_length \<longrightarrow>
            sanitize_output output max_length
              = take (nat max_length) output @ truncation_marker (length output)) \<and>
         int (length (sanitize_output output max_length))
           \<le> max_length + int (length (truncation_marker (length output)))"
  using assms by (simp add: sanitize_output_def slice_to_def)

theorem sanitize_output_bound_witness:
  "(0::int) \<le> 4 \<and> sanitize_output (py ''abcdef'') 4 = py ''abcd'' @ truncation_marker 6"
  using sanitize_output_bound [of 4 "py ''abcdef''"] by (simp add: py_def eval_nat_numeral)

text \<open>
  C7 as stated, for every integer bound, fails at a negative one: with bound \<open>-1\<close> the
  slice drops the last character of \<^verbatim>\<open>"abc"\<close> instead of keeping "the first -1", and the
  result is longer than the bound plus the marker.
\<close>

theorem sanitize_output_negative_bound:
  "sanitize_output (py ''abc'') (- 1) = py ''ab'' @ truncation_marker 3 \<and>
   int (length (sanitize_output (py ''abc'') (- 1)))
     > - 1 + int (length (truncation_marker 3))"
  by (simp add: sanitize_output_def slice_to_def py_def eval_nat_numeral)

section \<open>Provisioning\<close>

text \<open>
  C9. When the image is already in the local store, \<open>ensure_docker_image\<close> leaves the
  host as it is, so it builds nothing, however often it is called, and with a reachable
  engine it returns success. After any successful call a second call changes nothing.
  When the image is absent and \<^verbatim>\<open>Dockerfile.sandbox\<close> is missing, it returns failure
  with a message, as an ordinary result.
\<close>

theorem provisioning_idempotent:
  "(image_present w \<longrightarrow>
      snd (ensure_docker_image w) = w \<and>
      builds (snd (ensure_docker_image (snd (ensure_docker_image w)))) = builds w) \<and>
   (image_present w \<and> daemon_error w = None \<longrightarrow>
      fst (ensure_docker_image w) = (True, py ''Image exists'')) \<and>
   (fst (fst (ensure_docker_image w)) \<longrightarrow>
      snd (ensure_docker_image (snd (ensure_docker_image w))) = snd (ensure_docker_image w)) \<and>
   (\<not> image_present w \<and> \<not> dockerfile_exists w \<and> daemon_error w = None \<longrightarrow>
      ensure_docker_image w
        = ((False, mark_cross @ py '' Dockerfile.sandbox not found in project root''), w))"
proof -
  have "fst (fst (ensure_docker_image w)) \<longrightarrow>
      snd (ensure_docker_image (snd (ensure_docker_image w))) = snd (ensure_docker_image w)"
    using ensure_docker_image_success [of w] ensure_docker_image_present by blast
  moreover have "image_present w \<longrightarrow>
      snd (ensure_docker_image w) = w \<and>
      builds (snd (ensure_docker_image (snd (ensure_docker_image w)))) = builds w"
    by (simp add: ensure_docker_image_present)
  moreover have "image_present w \<and> daemon_error w = None \<longrightarrow>
      fst (ensure_docker_image w) = (True, py ''Image exists'')"
    by (simp add: ensure_docker_image_def)
  moreover have "\<not> image_present w \<and> \<not> dockerfile_exists w \<and> daemon_error w = None \<longrightarrow>
      ensure_docker_image w
        = ((False, mark_cross @ py '' Dockerfile.sandbox not found in project root''), w)"
    by (simp add: ensure_docker_image_def)
  ultimately show ?thesis by blast
qed

theorem provisioning_idempotent_witness:
  "image_present ready_host \<and> daemon_error ready_host = None \<and>
   ensure_docker_image ready_host = ((True, py ''Image exists''), ready_host) \<and>
   builds (snd (ensure_docker_image (snd (ensure_docker_image ready_host)))) = 0 \<and>
   fst (fst (ensure_docker_image ready_host)) \<and>
   fst (ensure_docker_image (ready_host\<lparr>image_present := False, dockerfile_exists := False\<rparr>))
     = (False, mark_cross @ py '' Dockerfile.sandbox not found in project root'')"
  using provisioning_idempotent [of ready_host]
    provisioning_idempotent [of "ready_host\<lparr>image_present := False, dockerfile_exists := False\<rparr>"]
  by (simp add: ready_host_def prod_eq_iff)

section \<open>The safety prefilter\<close>

lemma py_in_iff: "py_in p s \<longleftrightarrow> (\<exists>a b. s = a @ p @ b)"
proof (induction s)
  case Nil
  then show ?case by auto
next
  case (Cons c s)
  show ?case
  proof
    assume "py_in p (c # s)"
    then consider "take (length p) (c # s) = p" | "py_in p s" by auto
    then show "\<exists>a b. c # s = a @ p @ b"
    proof cases
      case 1
      then have "c # s = [] @ p @ drop (length p) (c # s)"
        by (metis append_Nil append_take_drop_id)
      then show ?thesis by blast
    next
      case 2
      then obtain a b where "s = a @ p @ b" using Cons.IH by blast
      then have "c # s = (c # a) @ p @ b" by simp
      then show ?thesis by blast
    qed
  next
    assume "\<exists>a b. c # s = a @ p @ b"
    then obtain a b where ab: "c # s = a @ p @ b" by blast
    show "py_in p (c # s)"
    proof (cases a)
      case Nil
      then have "take (length p) (c # s) = p" using ab by simp
      then show ?thesis by simp
    next
      case (Cons x a')
      then have "s = a' @ p @ b" using ab by simp
      then have "py_in p s" using Cons.IH by blast
      then show ?thesis by simp
    qed
  qed
qed

lemma validate_dangerous:
  assumes "find (\<lambda>pattern. py_in pattern code) dangerous_patterns = Some p"
  shows "validate_code_safety code
           = (False, mark_cross @ py '' Dangerous operation detected: '' @ p)"
  using assms by (simp add: validate_code_safety_def)

lemma run_rejected:
  assumes "validate_code_safety code = (False, msg)"
  shows "run_python_code lib cfg scn code session_id w = (msg, w)"
  using assms by (simp add: run_python_code_def)

text \<open>
  The check looks for its own four patterns and the two traversal sequences only: code
  with a pattern that is only in \<open>BLOCKED_PATTERNS\<close> is accepted.
\<close>

lemma blocked_patterns_not_consulted:
  "py ''import os'' \<in> set BLOCKED_PATTERNS \<and>
   validate_code_safety (py ''import os'') = (True, [])"
  by (simp add: BLOCKED_PATTERNS_def validate_code_safety_def dangerous_patterns_def py_def)

text \<open>
  C2. When the code contains one of the patterns of the safety check (the four
  dynamic-evaluation constructs, or a path-traversal sequence), \<open>run_python_code\<close>
  returns a rejection message and leaves the host exactly as it was: no build, no
  container launched, the workspace and the database untouched. The message names what
  triggered it: the first listed construct that occurs in the code, or path traversal.
\<close>

theorem prefilter_rejects_before_launch:
  assumes "\<exists>p \<in> set (dangerous_patterns @ [py ''../'', py ''/..'']). py_in p code"
  shows "\<exists>msg. run_python_code lib cfg scn code session_id w = (msg, w) \<and>
           ((\<exists>p \<in> set dangerous_patterns. py_in p code \<and>
               msg = mark_cross @ py '' Dangerous operation detected: '' @ p) \<or>
            ((py_in (py ''../'') code \<or> py_in (py ''/..'') code) \<and>
               msg = mark_cross @ py '' Path traversal detected''))"
proof (cases "find (\<lambda>pattern. py_in pattern code) dangerous_patterns")
  case None
  then have no: "\<forall>p \<in> set dangerous_patterns. \<not> py_in p code"
    by (simp add: find_None_iff)
  with assms have tr: "py_in (py ''../'') code \<or> py_in (py ''/..'') code" by auto
  with None have "validate_code_safety code = (False, mark_cross @ py '' Path traversal detected'')"
    by (simp add: validate_code_safety_def)
  then have "run_python_code lib cfg scn code session_id w
               = (mark_cross @ py '' Path traversal detected'', w)"
    by (rule run_rejected)
  with tr show ?thesis by blast
next
  case (Some p)
  then have "p \<in> set dangerous_patterns \<and> py_in p code"
    by (auto simp: find_Some_iff)
  moreover have "run_python_code lib cfg scn code session_id w
               = (mark_cross @ py '' Dangerous operation detected: '' @ p, w)"
    using Some by (simp add: validate_dangerous run_rejected)
  ultimately show ?thesis by blast
qed

theorem prefilter_rejects_before_launch_witness:
  "py_in (py ''eval('') (py ''x = eval(input())'') \<and>
   run_python_code ascii_lib default_settings (scenario_of (prints [] 0) (Some []))
       (py ''x = eval(input())'') (py ''default'') ready_host
     = (mark_cross @ py '' Dangerous operation detected: eval('', ready_host)"
  using prefilter_rejects_before_launch [of "py ''x = eval(input())''" ascii_lib default_settings
      "scenario_of (prints [] 0) (Some [])" "py ''default''" ready_host]
  by (simp add: dangerous_patterns_def py_def)

section \<open>The sandboxed runner\<close>



lemma execute_daemon_down:
  "daemon_error w = Some e \<Longrightarrow>
   execute_in_docker lib cfg scn code script_path w
     = (Inr \<lparr>dict_stdout = Some [], dict_stderr = py ''Docker execution error: '' @ e,
              dict_returncode = - 1\<rparr>, w)"
  by (simp add: execute_in_docker_def)

lemma execute_engine_error:
  "daemon_error w = None \<Longrightarrow>
   fst (containers_run scn (container_config_of cfg script_path)) = DockerException e \<Longrightarrow>
   fst (execute_in_docker lib cfg scn code script_path w)
     = Inr \<lparr>dict_stdout = Some [], dict_stderr = py ''Docker execution error: '' @ e,
             dict_returncode = - 1\<rparr>"
  by (auto simp: execute_in_docker_def Let_def split: prod.splits)

lemma containers_run_error_iff:
  "(\<exists>e. fst (containers_run scn c) = DockerException e)
     \<longleftrightarrow> launch_error scn \<noteq> None \<or> cleanup_error scn \<noteq> None"
  by (auto simp: containers_run_def Let_def split: option.splits)

lemma execute_minus_one:
  "fst (execute_in_docker lib cfg scn code script_path w) = Inr d \<Longrightarrow>
   dict_returncode d = - 1 \<Longrightarrow>
   daemon_error w \<noteq> None \<or>
   (\<exists>e. fst (containers_run scn (container_config_of cfg script_path)) = DockerException e)"
  by (auto simp: execute_in_docker_def Let_def
      split: prod.splits sum.splits option.splits run_result.splits)

text \<open>
  C5, as amended. When the engine itself fails (the client cannot reach it, or
  \<^verbatim>\<open>containers.run\<close> raises a \<^verbatim>\<open>DockerException\<close> other than \<^verbatim>\<open>ContainerError\<close>, as
  for an image missing at launch), \<open>execute_in_docker\<close> does not raise: it returns the
  outcome with exit code \<open>-1\<close>, empty stdout and the engine's error text in stderr. An
  outcome with exit code \<open>-1\<close> arises in no other way. Such an exception is raised
  when the engine refuses the request before the container starts, or when it answers
  with an error after the container has exited.
\<close>

theorem engine_failure_outcome:
  "(daemon_error w = Some e \<longrightarrow>
      execute_in_docker lib cfg scn code script_path w
        = (Inr \<lparr>dict_stdout = Some [], dict_stderr = py ''Docker execution error: '' @ e,
                 dict_returncode = - 1\<rparr>, w)) \<and>
   (daemon_error w = None \<and>
    fst (containers_run scn (container_config_of cfg script_path)) = DockerException e \<longrightarrow>
      fst (execute_in_docker lib cfg scn code script_path w)
        = Inr \<lparr>dict_stdout = Some [], dict_stderr = py ''Docker execution error: '' @ e,
                dict_returncode = - 1\<rparr>) \<and>
   (\<forall>d. fst (execute_in_docker lib cfg scn code script_path w) = Inr d \<and>
        dict_returncode d = - 1 \<longrightarrow>
          daemon_error w \<noteq> None \<or>
          (\<exists>x. fst (containers_run scn (container_config_of cfg script_path))
                  = DockerException x)) \<and>
   ((\<exists>x. fst (containers_run scn (container_config_of cfg script_path)) = DockerException x)
      \<longleftrightarrow> launch_error scn \<noteq> None \<or> cleanup_error scn \<noteq> None)"
  using execute_daemon_down [of w e lib cfg scn code script_path]
    execute_engine_error [of w scn cfg script_path e lib code]
    execute_minus_one [of lib cfg scn code script_path w]
    containers_run_error_iff [of scn "container_config_of cfg script_path"]
  by blast

theorem engine_failure_outcome_witness:
  "execute_in_docker ascii_lib default_settings (scenario_of (prints [] 0) (Some []))
       (py ''print(1)'') (py ''/tmp/sandbox_script_9f1c2ab4.py'')
       (ready_host\<lparr>daemon_error := Some (py ''Connection refused'')\<rparr>)
     = (Inr \<lparr>dict_stdout = Some [],
              dict_stderr = py ''Docker execution error: Connection refused'',
              dict_returncode = - 1\<rparr>,
        ready_host\<lparr>daemon_error := Some (py ''Connection refused'')\<rparr>) \<and>
   fst (execute_in_docker ascii_lib default_settings
          ((scenario_of (prints [] 0) (Some []))\<lparr>launch_error := Some (py ''No such image'')\<rparr>)
          (py ''print(1)'') (py ''/tmp/sandbox_script_9f1c2ab4.py'') ready_host)
     = Inr \<lparr>dict_stdout = Some [],
             dict_stderr = py ''Docker execution error: No such image'',
             dict_returncode = - 1\<rparr>"
  using engine_failure_outcome [where w = "ready_host\<lparr>daemon_error := Some (py ''Connection refused'')\<rparr>"
      and e = "py ''Connection refused''" and lib = ascii_lib and cfg = default_settings
      and scn = "scenario_of (prints [] 0) (Some [])" and code = "py ''print(1)''"
      and script_path = "py ''/tmp/sandbox_script_9f1c2ab4.py''"]
    engine_failure_outcome [where w = ready_host and e = "py ''No such image''"
      and lib = ascii_lib and cfg = default_settings
      and scn = "(scenario_of (prints [] 0) (Some []))\<lparr>launch_error := Some (py ''No such image'')\<rparr>"
      and code = "py ''print(1)''" and script_path = "py ''/tmp/sandbox_script_9f1c2ab4.py''"]
  by (simp add: ready_host_def scenario_of_def containers_run_def py_def)

text \<open>
  C5 as stated fails in its last part: exit code \<open>-1\<close> is also produced for code that
  ran and failed. In the call below the guest runs, raises and exits with status 1; the
  engine then answers the removal of the container with an error, the client raises it
  as a \<^verbatim>\<open>DockerException\<close>, and the outcome is the one of an engine failure, with exit
  code \<open>-1\<close>.
\<close>

theorem minus_one_after_guest_failed:
  "launch_error removal_fails = None \<and>
   exit_status (guest_of removal_fails
                  (container_config_of default_settings (script_path_of removal_fails))) = 1 \<and>
   fst (execute_in_docker ascii_lib default_settings removal_fails (py ''print(1/0)'')
          (script_path_of removal_fails) ready_host)
     = Inr \<lparr>dict_stdout = Some [],
             dict_stderr = py ''Docker execution error: 409 Client Error: Conflict'',
             dict_returncode = - 1\<rparr>"
  by (simp add: removal_fails_def scenario_of_def fails_with_1_def execute_in_docker_def
      containers_run_def ready_host_def py_def)



section \<open>Facts about a completed run\<close>

lemma run_python_code_completed:
  assumes "validate_code_safety code = (True, m0)"
      and "ensure_docker_image w = ((True, m1), w1)"
      and "execute_in_docker lib cfg scn code (script_path_of scn) w1
             = (Inr \<lparr>dict_stdout = Some raw, dict_stderr = raw_err, dict_returncode = rc\<rparr>, w2)"
  shows "run_python_code lib cfg scn code session_id w =
           (build_response lib cfg rc (strip raw)
              (strip raw_err)
              (set_minus (listdir (workspace w2)) (listdir (workspace w1)))
              (now w2 - now w)
              (fst (save_to_database scn session_id code (strip raw)
                      (strip raw_err) rc
                      (set_minus (listdir (workspace w2)) (listdir (workspace w1)))
                      (now w2 - now w) w2)),
            snd (save_to_database scn session_id code (strip raw)
                      (strip raw_err) rc
                      (set_minus (listdir (workspace w2)) (listdir (workspace w1)))
                      (now w2 - now w) w2))"
  using assms by (simp add: run_python_code_def Let_def split: prod.splits)

lemma save_to_database_failed:
  "execution_commit_error scn = Some x \<Longrightarrow>
   save_to_database scn sid code out err rc files t w = (None, w)"
  by (simp add: save_to_database_def ExecutionRepository_save_execution_def)

lemma save_file_metadata_frame:
  "workspace (save_file_metadata scn sid f eid w) = workspace w \<and>
   code_executions (database (save_file_metadata scn sid f eid w)) = code_executions (database w) \<and>
   next_execution_id (database (save_file_metadata scn sid f eid w)) = next_execution_id (database w)"
  by (simp add: save_file_metadata_def WorkspaceRepository_save_file_metadata_def Let_def
      split: option.splits)

lemma save_file_metadata_rows:
  "workspace_files (database (save_file_metadata scn sid f eid w))
     = workspace_files (database w) @
       (if stat_size (workspace w) f \<noteq> None \<and> file_commit_error scn f = None
        then [\<lparr>wf_id = next_file_id (database w), wf_session_id = sid, wf_filename = f,
               wf_file_path = f, wf_file_size = the (stat_size (workspace w) f),
               wf_file_type = file_type_of f, wf_description = None, wf_execution_id = eid\<rparr>]
        else [])"
  by (simp add: save_file_metadata_def WorkspaceRepository_save_file_metadata_def Let_def
      split: option.splits)

lemma fold_save_file_metadata:
  "\<exists>rows. workspace_files (database (fold (\<lambda>f. save_file_metadata scn sid f eid) files w))
             = workspace_files (database w) @ rows \<and>
          map wf_filename rows
            = filter (\<lambda>f. stat_size (workspace w) f \<noteq> None \<and> file_commit_error scn f = None) files \<and>
          (\<forall>r \<in> set rows. wf_execution_id r = eid \<and> wf_session_id r = sid) \<and>
          workspace (fold (\<lambda>f. save_file_metadata scn sid f eid) files w) = workspace w \<and>
          code_executions (database (fold (\<lambda>f. save_file_metadata scn sid f eid) files w))
            = code_executions (database w) \<and>
          next_execution_id (database (fold (\<lambda>f. save_file_metadata scn sid f eid) files w))
            = next_execution_id (database w)"
proof (induction files arbitrary: w)
  case Nil
  then show ?case by simp
next
  case (Cons f files)
  let ?w1 = "save_file_metadata scn sid f eid w"
  obtain rows where r: "workspace_files (database (fold (\<lambda>f. save_file_metadata scn sid f eid) files ?w1))
             = workspace_files (database ?w1) @ rows"
     "map wf_filename rows
            = filter (\<lambda>f. stat_size (workspace ?w1) f \<noteq> None \<and> file_commit_error scn f = None) files"
     "\<forall>r \<in> set rows. wf_execution_id r = eid \<and> wf_session_id r = sid"
     "workspace (fold (\<lambda>f. save_file_metadata scn sid f eid) files ?w1) = workspace ?w1"
     "code_executions (database (fold (\<lambda>f. save_file_metadata scn sid f eid) files ?w1))
            = code_executions (database ?w1)"
     "next_execution_id (database (fold (\<lambda>f. save_file_metadata scn sid f eid) files ?w1))
            = next_execution_id (database ?w1)"
    using Cons.IH [of ?w1] by blast
  let ?first = "(if stat_size (workspace w) f \<noteq> None \<and> file_commit_error scn f = None
        then [\<lparr>wf_id = next_file_id (database w), wf_session_id = sid, wf_filename = f,
               wf_file_path = f, wf_file_size = the (stat_size (workspace w) f),
               wf_file_type = file_type_of f, wf_description = None, wf_execution_id = eid\<rparr>]
        else [])"
  have "workspace_files (database (fold (\<lambda>f. save_file_metadata scn sid f eid) (f # files) w))
          = workspace_files (database w) @ (?first @ rows)"
    using r(1) by (simp add: save_file_metadata_rows)
  moreover have "map wf_filename (?first @ rows)
      = filter (\<lambda>f. stat_size (workspace w) f \<noteq> None \<and> file_commit_error scn f = None) (f # files)"
    using r(2) by (simp add: save_file_metadata_frame)
  moreover have "\<forall>r \<in> set (?first @ rows). wf_execution_id r = eid \<and> wf_session_id r = sid"
    using r(3) by auto
  moreover have "workspace (fold (\<lambda>f. save_file_metadata scn sid f eid) (f # files) w) = workspace w"
    using r(4) by (simp add: save_file_metadata_frame)
  moreover have "code_executions (database (fold (\<lambda>f. save_file_metadata scn sid f eid) (f # files) w))
            = code_executions (database w)"
    using r(5) by (simp add: save_file_metadata_frame)
  moreover have "next_execution_id (database (fold (\<lambda>f. save_file_metadata scn sid f eid) (f # files) w))
            = next_execution_id (database w)"
    using r(6) by (simp add: save_file_metadata_frame)
  ultimately show ?case by blast
qed

lemma strip_id:
  assumes "s \<noteq> []" "\<not> py_isspace (hd s)" "\<not> py_isspace (last s)"
  shows "strip s = s"
proof -
  have "dropWhile py_isspace s = s"
    using assms(2) by (simp add: dropWhile_eq_self_iff)
  moreover have "dropWhile py_isspace (rev s) = rev s"
    using assms(1,3) by (simp add: dropWhile_eq_self_iff hd_rev)
  ultimately show ?thesis by (simp add: strip_def)
qed

lemma container_config_timeout_unused:
  "container_config_of (cfg\<lparr>SANDBOX_TIMEOUT := t\<rparr>) script_path
     = container_config_of cfg script_path"
  by (simp add: container_config_of_def)

lemma execute_timeout_unused:
  "execute_in_docker lib (cfg\<lparr>SANDBOX_TIMEOUT := t\<rparr>) scn code script_path w
     = execute_in_docker lib cfg scn code script_path w"
  unfolding execute_in_docker_def container_config_timeout_unused ..

lemma response_parts_timeout_unused:
  "response_parts lib (cfg\<lparr>SANDBOX_TIMEOUT := t\<rparr>) rc out err files secs eid
     = response_parts lib cfg rc out err files secs eid"
  by (simp add: response_parts_def)

lemma build_response_timeout_unused:
  "build_response lib (cfg\<lparr>SANDBOX_TIMEOUT := t\<rparr>) rc out err files secs eid
     = build_response lib cfg rc out err files secs eid"
  unfolding build_response_def response_parts_timeout_unused ..

lemma timeout_unused:
  "run_python_code lib (cfg\<lparr>SANDBOX_TIMEOUT := t\<rparr>) scn code session_id w
     = run_python_code lib cfg scn code session_id w"
  unfolding run_python_code_def execute_timeout_unused build_response_timeout_unused ..

lemma validate_save_tables: "validate_code_safety (py ''save_tables()'') = (True, [])"
  by (simp add: validate_code_safety_def dangerous_patterns_def py_def)

lemma py_eq_iff: "py a = py b \<longleftrightarrow> a = b"
  by (simp add: py_def inj_map_eq_map inj_on_def)

lemma strip_Nil: "strip [] = []"
  by (simp add: strip_def)

lemma ensure_docker_image_ready_host:
  "ensure_docker_image ready_host = ((True, py ''Image exists''), ready_host)"
  by (simp add: ensure_docker_image_def ready_host_def)

lemma ascii_decode: "list_all (\<lambda>b. b < 128) bs \<Longrightarrow> utf8_decode ascii_lib bs = Inr bs"
  by (simp add: ascii_lib_def)

lemma execute_metadata_commit_fails:
  "execute_in_docker ascii_lib default_settings metadata_commit_fails (py ''save_tables()'')
      (script_path_of metadata_commit_fails) ready_host
   = (Inr \<lparr>dict_stdout = Some (py ''saved'' @ [10]), dict_stderr = [], dict_returncode = 0\<rparr>,
      ready_host\<lparr>launches := 1, now := 1,
        workspace := Some [(py ''a.csv'', 10), (py ''b.csv'', 20)]\<rparr>)"
  by (simp add: execute_in_docker_def containers_run_def prints_def captured_def
      container_config_of_def ready_host_def metadata_commit_fails_def scenario_of_def
      ascii_decode py_def)

lemma strip_saved: "strip (py ''saved'' @ [10]) = py ''saved''"
  by (simp add: strip_def py_isspace_def py_def)

section \<open>The ledger write\<close>

text \<open>
  C4, as amended. The ledger write of a run is one commit for each record, not one
  transaction for the run. The execution record is committed first; when that commit
  raises, nothing is written and no id is returned. Otherwise the record is in the
  ledger, and one file-metadata record is then committed, each in a session of its own,
  for each created file that is still in the workspace and whose own commit succeeds;
  the others are skipped. Every record written carries the id of the execution record
  and the session id, and the rows the ledger held before stay as they were.
\<close>

theorem ledger_write_per_record:
  assumes "save_to_database scn sid code out err rc files t w = (eid, w')"
  shows "(execution_commit_error scn \<noteq> None \<longrightarrow> eid = None \<and> w' = w) \<and>
         (execution_commit_error scn = None \<longrightarrow>
            eid = Some (next_execution_id (database w)) \<and>
            code_executions (database w') = code_executions (database w) @
              [\<lparr>ce_id = next_execution_id (database w), ce_session_id = sid, ce_user_id = None,
                ce_code = code, ce_stdout = out, ce_stderr = err, ce_returncode = rc,
                ce_created_files = files, ce_execution_time = t\<rparr>] \<and>
            (\<exists>rows. workspace_files (database w') = workspace_files (database w) @ rows \<and>
               map wf_filename rows
                 = filter (\<lambda>f. stat_size (workspace w) f \<noteq> None \<and> file_commit_error scn f = None)
                     files \<and>
               (\<forall>r \<in> set rows. wf_execution_id r = eid \<and> wf_session_id r = sid)))"
proof (cases "execution_commit_error scn")
  case (Some x)
  then show ?thesis using assms by (simp add: save_to_database_failed)
next
  case None
  let ?row = "\<lparr>ce_id = next_execution_id (database w), ce_session_id = sid, ce_user_id = None,
                ce_code = code, ce_stdout = out, ce_stderr = err, ce_returncode = rc,
                ce_created_files = files, ce_execution_time = t\<rparr>"
  let ?w0 = "w\<lparr>database := (database w)\<lparr>code_executions := code_executions (database w) @ [?row],
                     next_execution_id := next_execution_id (database w) + 1\<rparr>\<rparr>"
  have eq: "save_to_database scn sid code out err rc files t w
              = (Some (next_execution_id (database w)),
                 fold (\<lambda>f. save_file_metadata scn sid f (Some (next_execution_id (database w))))
                   files ?w0)"
    using None
    by (simp add: save_to_database_def ExecutionRepository_save_execution_def Let_def)
  then have e: "eid = Some (next_execution_id (database w))"
    and w': "w' = fold (\<lambda>f. save_file_metadata scn sid f eid) files ?w0"
    using assms by auto
  obtain rows where r: "workspace_files (database w') = workspace_files (database ?w0) @ rows"
    "map wf_filename rows
       = filter (\<lambda>f. stat_size (workspace ?w0) f \<noteq> None \<and> file_commit_error scn f = None) files"
    "\<forall>r \<in> set rows. wf_execution_id r = eid \<and> wf_session_id r = sid"
    "code_executions (database w') = code_executions (database ?w0)"
    using fold_save_file_metadata [of scn sid eid files ?w0] w' by blast
  have "\<exists>rows. workspace_files (database w') = workspace_files (database w) @ rows \<and>
               map wf_filename rows
                 = filter (\<lambda>f. stat_size (workspace w) f \<noteq> None \<and> file_commit_error scn f = None)
                     files \<and>
               (\<forall>r \<in> set rows. wf_execution_id r = eid \<and> wf_session_id r = sid)"
    using r(1,2,3) by auto
  moreover have "code_executions (database w') = code_executions (database w) @ [?row]"
    using r(4) by simp
  ultimately show ?thesis using None e by simp
qed

theorem ledger_write_per_record_witness:
  "fst (save_to_database metadata_commit_fails (py ''default'') (py ''save_tables()'')
          (py ''saved'') [] 0 [py ''a.csv'', py ''b.csv''] 1
          (ready_host\<lparr>workspace := Some [(py ''a.csv'', 10), (py ''b.csv'', 20)]\<rparr>)) = Some 1 \<and>
   map ce_created_files (code_executions (database (snd
       (save_to_database metadata_commit_fails (py ''default'') (py ''save_tables()'')
          (py ''saved'') [] 0 [py ''a.csv'', py ''b.csv''] 1
          (ready_host\<lparr>workspace := Some [(py ''a.csv'', 10), (py ''b.csv'', 20)]\<rparr>)))))
     = [[py ''a.csv'', py ''b.csv'']] \<and>
   map wf_filename (workspace_files (database (snd
       (save_to_database metadata_commit_fails (py ''default'') (py ''save_tables()'')
          (py ''saved'') [] 0 [py ''a.csv'', py ''b.csv''] 1
          (ready_host\<lparr>workspace := Some [(py ''a.csv'', 10), (py ''b.csv'', 20)]\<rparr>)))))
     = [py ''a.csv'']"
  using ledger_write_per_record [OF prod.collapse [symmetric],
      of metadata_commit_fails "py ''default''" "py ''save_tables()''" "py ''saved''" "[]" 0
        "[py ''a.csv'', py ''b.csv'']" 1
        "ready_host\<lparr>workspace := Some [(py ''a.csv'', 10), (py ''b.csv'', 20)]\<rparr>"]
  by (auto simp: metadata_commit_fails_def scenario_of_def ready_host_def empty_ledger_def
      stat_size_def py_eq_iff)

text \<open>
  C4 as stated fails: in the run below the guest writes \<^verbatim>\<open>a.csv\<close> and \<^verbatim>\<open>b.csv\<close> and
  the commit of the metadata row of \<^verbatim>\<open>b.csv\<close> raises. The ledger ends with the execution
  record, which lists both files, and with the metadata record of \<^verbatim>\<open>a.csv\<close> only.
\<close>

theorem ledger_partial_file_metadata:
  "database (snd (run_python_code ascii_lib default_settings metadata_commit_fails
       (py ''save_tables()'') (py ''default'') ready_host))
   = \<lparr>code_executions =
        [\<lparr>ce_id = 1, ce_session_id = py ''default'', ce_user_id = None,
          ce_code = py ''save_tables()'', ce_stdout = py ''saved'', ce_stderr = [],
          ce_returncode = 0, ce_created_files = [py ''a.csv'', py ''b.csv''],
          ce_execution_time = 1\<rparr>],
      workspace_files =
        [\<lparr>wf_id = 1, wf_session_id = py ''default'', wf_filename = py ''a.csv'',
          wf_file_path = py ''a.csv'', wf_file_size = 10, wf_file_type = py ''csv'',
          wf_description = None, wf_execution_id = Some 1\<rparr>],
      next_execution_id = 2, next_file_id = 2\<rparr>"
proof -
  have files: "set_minus (listdir (Some [(py ''a.csv'', 10), (py ''b.csv'', 20)])) (listdir (Some []))
          = [py ''a.csv'', py ''b.csv'']"
    by (simp add: set_minus_def listdir_def py_set_def py_def)
  have ft: "file_type_of (py ''a.csv'') = py ''csv''"
    by (simp add: file_type_of_def path_suffix_def py_def upt_rec)
  show ?thesis
    unfolding run_python_code_completed [OF validate_save_tables ensure_docker_image_ready_host execute_metadata_commit_fails]
    by (simp add: ready_host_def strip_saved strip_Nil files save_to_database_def
      ExecutionRepository_save_execution_def save_file_metadata_def
      WorkspaceRepository_save_file_metadata_def stat_size_def ft metadata_commit_fails_def
      scenario_of_def empty_ledger_def Let_def py_eq_iff)
qed

section \<open>A failing ledger\<close>








section \<open>Bounded output in the summary, full output in the ledger\<close>

lemma validate_print_long: "validate_code_safety (py ''print(6000 * chr(97))'') = (True, [])"
  by (simp add: validate_code_safety_def dangerous_patterns_def py_def)

lemma execute_long_output:
  "execute_in_docker ascii_lib default_settings long_output (py ''print(6000 * chr(97))'')
      (script_path_of long_output) ready_host
   = (Inr \<lparr>dict_stdout = Some (replicate 6000 97), dict_stderr = [], dict_returncode = 0\<rparr>,
      ready_host\<lparr>launches := 1, now := 1, workspace := Some []\<rparr>)"
  by (simp add: execute_in_docker_def containers_run_def prints_def captured_def
      container_config_of_def ready_host_def long_output_def scenario_of_def
      ascii_decode list_all_iff)

lemma strip_replicate: "strip (replicate 6000 97) = replicate 6000 97"
  by (rule strip_id) (simp_all add: py_isspace_def last_replicate)

lemma fold_save_file_metadata_executions:
  "code_executions (database (fold (\<lambda>f. save_file_metadata scn sid f eid) files w))
     = code_executions (database w)"
  using fold_save_file_metadata [of scn sid eid files w] by blast

lemma save_to_database_stored:
  assumes "execution_commit_error scn = None"
  shows "\<exists>row. code_executions (database (snd (save_to_database scn sid code out err rc files t w)))
                 = code_executions (database w) @ [row] \<and>
               ce_stdout row = out \<and> ce_stderr row = err"
  using assms
  by (simp add: save_to_database_def ExecutionRepository_save_execution_def Let_def
      fold_save_file_metadata_executions)

lemma save_to_database_id:
  "fst (save_to_database scn sid code out err rc files t w)
     = (case execution_commit_error scn of
          None \<Rightarrow> Some (next_execution_id (database w))
        | Some e \<Rightarrow> None)"
  by (simp add: save_to_database_def ExecutionRepository_save_execution_def Let_def
      split: option.splits)

lemma sanitize_output_shape:
  assumes "0 \<le> M"
  shows "int (length (sanitize_output s M)) \<le> M + int (length (truncation_marker (length s))) \<and>
         (int (length s) > M \<longrightarrow>
            sanitize_output s M = take (nat M) s @ truncation_marker (length s)) \<and>
         (int (length s) \<le> M \<longrightarrow> sanitize_output s M = s)"
  using assms by (simp add: sanitize_output_def slice_to_def)

text \<open>
  C3, as amended. For every run that reaches the summary, with an output bound that is
  not negative, the summary is, line by line: the banner; the stdout and the stderr of
  the run, stripped, each through \<open>sanitize_output\<close> and each left out when empty; the
  created files; the elapsed time; the id of the execution record. The streams appear
  nowhere else in it. \<open>sanitize_output\<close> of a stream is the stream itself when it fits
  the bound and otherwise its first \<open>SANDBOX_MAX_OUTPUT\<close> characters followed by the
  marker stating its true length, so never longer than the bound plus the marker. The
  execution record written to the ledger holds the stripped streams in full, not
  truncated.
\<close>

theorem summary_bounded_ledger_full:
  assumes "0 \<le> SANDBOX_MAX_OUTPUT cfg"
      and "validate_code_safety code = (True, m0)"
      and "ensure_docker_image w = ((True, m1), w1)"
      and "execute_in_docker lib cfg scn code (script_path_of scn) w1
             = (Inr \<lparr>dict_stdout = Some raw, dict_stderr = raw_err, dict_returncode = rc\<rparr>, w2)"
  shows "\<exists>w3.
           run_python_code lib cfg scn code session_id w =
             (join [10]
                ([if rc = 0
                  then mark_check @ py '' Code executed successfully in Docker sandbox.''
                  else mark_cross @ py '' Code execution failed with exit code '' @ str_int rc
                         @ py ''.'']
                 @ (if strip raw \<noteq> []
                    then [[10] @ mark_output @ py '' Output:'' @ [10]
                            @ sanitize_output (strip raw) (SANDBOX_MAX_OUTPUT cfg)]
                    else [])
                 @ (if strip raw_err \<noteq> []
                    then [[10] @ mark_warning @ py '' Errors/Warnings:'' @ [10]
                            @ sanitize_output (strip raw_err) (SANDBOX_MAX_OUTPUT cfg)]
                    else [])
                 @ (if set_minus (listdir (workspace w2)) (listdir (workspace w1)) \<noteq> []
                    then [[10] @ mark_files @ py '' Created files: ''
                            @ join (py '', '')
                                (sort (set_minus (listdir (workspace w2))
                                         (listdir (workspace w1)))),
                          mark_folder @ py '' Files saved in: '' @ WORKSPACE_DIR cfg]
                    else [])
                 @ [[10] @ mark_clock @ py '' Execution time: '' @ fmt_2f lib (now w2 - now w)
                      @ py ''s'',
                    mark_disk @ py '' Results stored (ID: ''
                      @ (case execution_commit_error scn of
                           None \<Rightarrow> str_int (next_execution_id (database w2))
                         | Some e \<Rightarrow> py ''None'')
                      @ py '')'']),
              w3) \<and>
           (\<forall>s. int (length (sanitize_output s (SANDBOX_MAX_OUTPUT cfg)))
                  \<le> SANDBOX_MAX_OUTPUT cfg + int (length (truncation_marker (length s))) \<and>
                (int (length s) > SANDBOX_MAX_OUTPUT cfg \<longrightarrow>
                   sanitize_output s (SANDBOX_MAX_OUTPUT cfg)
                     = take (nat (SANDBOX_MAX_OUTPUT cfg)) s @ truncation_marker (length s)) \<and>
                (int (length s) \<le> SANDBOX_MAX_OUTPUT cfg \<longrightarrow>
                   sanitize_output s (SANDBOX_MAX_OUTPUT cfg) = s)) \<and>
           (execution_commit_error scn = None \<longrightarrow>
              (\<exists>row. code_executions (database w3) = code_executions (database w2) @ [row] \<and>
                     ce_stdout row = strip raw \<and>
                     ce_stderr row = strip raw_err))"
proof -
  let ?out = "strip raw"
  let ?err = "strip raw_err"
  let ?files = "set_minus (listdir (workspace w2)) (listdir (workspace w1))"
  let ?save = "save_to_database scn session_id code ?out ?err rc ?files (now w2 - now w) w2"
  have run: "run_python_code lib cfg scn code session_id w
               = (build_response lib cfg rc ?out ?err ?files (now w2 - now w) (fst ?save),
                  snd ?save)"
    by (rule run_python_code_completed [OF assms(2,3,4)])
  have stored: "execution_commit_error scn = None \<longrightarrow>
      (\<exists>row. code_executions (database (snd ?save)) = code_executions (database w2) @ [row] \<and>
             ce_stdout row = ?out \<and> ce_stderr row = ?err)"
    using save_to_database_stored by blast
  show ?thesis
    apply (rule exI [of _ "snd ?save"])
    apply (intro conjI allI)
        apply (simp add: run save_to_database_id build_response_def response_parts_def
        split: option.splits)
    using sanitize_output_shape [OF assms(1)] apply blast
    using sanitize_output_shape [OF assms(1)] apply blast
    using sanitize_output_shape [OF assms(1)] apply blast
    apply (rule stored)
    done
qed

theorem summary_bounded_ledger_full_witness:
  "0 \<le> SANDBOX_MAX_OUTPUT default_settings \<and>
   fst (run_python_code ascii_lib default_settings long_output (py ''print(6000 * chr(97))'')
          (py ''default'') ready_host)
     = mark_check @ py '' Code executed successfully in Docker sandbox.'' @ [10, 10]
         @ mark_output @ py '' Output:'' @ [10] @ replicate 5000 97 @ truncation_marker 6000
         @ [10, 10] @ mark_clock @ py '' Execution time: 1.00s'' @ [10]
         @ mark_disk @ py '' Results stored (ID: 1)''"
proof -
  have m: "0 \<le> SANDBOX_MAX_OUTPUT default_settings"
    by (simp add: default_settings_def)
  have s: "sanitize_output (replicate 6000 97) (SANDBOX_MAX_OUTPUT default_settings)
             = replicate 5000 97 @ truncation_marker 6000"
    by (simp add: sanitize_output_def slice_to_def default_settings_def)
  have f: "set_minus (listdir (workspace (ready_host\<lparr>launches := 1, now := 1,
                workspace := Some []\<rparr>)))
              (listdir (workspace ready_host)) = []"
    by (simp add: set_minus_def listdir_def py_set_def ready_host_def)
  obtain w3 where
    "run_python_code ascii_lib default_settings long_output (py ''print(6000 * chr(97))'')
       (py ''default'') ready_host
     = (join [10]
          ([if (0::int) = 0
            then mark_check @ py '' Code executed successfully in Docker sandbox.''
            else mark_cross @ py '' Code execution failed with exit code '' @ str_int 0
                   @ py ''.'']
           @ (if strip (replicate 6000 97) \<noteq> []
              then [[10] @ mark_output @ py '' Output:'' @ [10]
                      @ sanitize_output (strip (replicate 6000 97))
                          (SANDBOX_MAX_OUTPUT default_settings)]
              else [])
           @ (if strip [] \<noteq> []
              then [[10] @ mark_warning @ py '' Errors/Warnings:'' @ [10]
                      @ sanitize_output (strip []) (SANDBOX_MAX_OUTPUT default_settings)]
              else [])
           @ (if set_minus (listdir (workspace (ready_host\<lparr>launches := 1, now := 1,
                    workspace := Some []\<rparr>))) (listdir (workspace ready_host)) \<noteq> []
              then [[10] @ mark_files @ py '' Created files: ''
                      @ join (py '', '')
                          (sort (set_minus (listdir (workspace (ready_host\<lparr>launches := 1,
                                    now := 1, workspace := Some []\<rparr>)))
                                   (listdir (workspace ready_host)))),
                    mark_folder @ py '' Files saved in: '' @ WORKSPACE_DIR default_settings]
              else [])
           @ [[10] @ mark_clock @ py '' Execution time: ''
                @ fmt_2f ascii_lib (now (ready_host\<lparr>launches := 1, now := 1,
                    workspace := Some []\<rparr>) - now ready_host)
                @ py ''s'',
              mark_disk @ py '' Results stored (ID: ''
                @ (case execution_commit_error long_output of
                     None \<Rightarrow> str_int (next_execution_id (database (ready_host\<lparr>launches := 1,
                              now := 1, workspace := Some []\<rparr>)))
                   | Some e \<Rightarrow> py ''None'')
                @ py '')'']),
        w3)"
    using summary_bounded_ledger_full
      [OF m validate_print_long ensure_docker_image_ready_host execute_long_output,
       of "py ''default''"]
    by blast
  then have "fst (run_python_code ascii_lib default_settings long_output
                    (py ''print(6000 * chr(97))'') (py ''default'') ready_host)
     = mark_check @ py '' Code executed successfully in Docker sandbox.'' @ [10, 10]
         @ mark_output @ py '' Output:'' @ [10] @ replicate 5000 97 @ truncation_marker 6000
         @ [10, 10] @ mark_clock @ py '' Execution time: 1.00s'' @ [10]
         @ mark_disk @ py '' Results stored (ID: 1)''"
    apply (simp only: strip_replicate strip_Nil f s fst_conv)
    apply (simp add: ready_host_def long_output_def scenario_of_def empty_ledger_def
        default_settings_def ascii_lib_def str_int_def digits.simps py_def)
    done
  then show ?thesis using m by simp
qed

text \<open>
  C3 as stated fails for the ledger: with the default bound of 5000 a guest that prints
  6000 characters leaves an execution record whose stdout is all 6000 characters, more
  than the bound and more than the bound plus the marker, and carries no marker.
\<close>

theorem ledger_holds_unbounded_output:
  "map ce_stdout (code_executions (database (snd
       (run_python_code ascii_lib default_settings long_output (py ''print(6000 * chr(97))'')
          (py ''default'') ready_host))))
     = [replicate 6000 97] \<and>
   SANDBOX_MAX_OUTPUT default_settings + int (length (truncation_marker 6000))
     < int (length (replicate 6000 (97::nat)))"
proof -
  have "map ce_stdout (code_executions (database (snd
       (run_python_code ascii_lib default_settings long_output (py ''print(6000 * chr(97))'')
          (py ''default'') ready_host))))
     = [replicate 6000 97]"
    unfolding run_python_code_completed
      [OF validate_print_long ensure_docker_image_ready_host execute_long_output]
    by (simp add: strip_replicate strip_Nil ready_host_def listdir_def py_set_def set_minus_def
        save_to_database_def ExecutionRepository_save_execution_def long_output_def
        scenario_of_def empty_ledger_def Let_def)
  moreover have "SANDBOX_MAX_OUTPUT default_settings + int (length (truncation_marker 6000))
     < int (length (replicate 6000 (97::nat)))"
    by (simp add: default_settings_def truncation_marker_def str_int_def digits.simps length_py)
  ultimately show ?thesis by blast
qed

section \<open>The timeout\<close>

lemma validate_sleep: "validate_code_safety sleep_code = (True, [])"
  by (simp add: validate_code_safety_def dangerous_patterns_def sleep_code_def py_def)

lemma execute_slow_guest:
  "execute_in_docker ascii_lib default_settings slow_guest sleep_code
      (script_path_of slow_guest) ready_host
   = (Inr \<lparr>dict_stdout = Some (py ''1'' @ [10]), dict_stderr = [], dict_returncode = 0\<rparr>,
      ready_host\<lparr>launches := 1, now := 60, workspace := Some []\<rparr>)"
  by (simp add: execute_in_docker_def containers_run_def prints_def captured_def
      container_config_of_def ready_host_def slow_guest_def scenario_of_def
      ascii_decode py_def)

text \<open>
  C1. The timeout setting is never used: \<open>container_config_of\<close> passes no timeout to
  the engine and the blocking call has none of its own, so the result of
  \<open>run_python_code\<close> does not depend on \<open>SANDBOX_TIMEOUT\<close> (the lemma
  \<open>timeout_unused\<close>). With the default timeout of 30 seconds, a guest that sleeps for
  60 seconds and exits with status 0 is not terminated: the call takes the full 60
  seconds and reports success with exit code 0, where the claim asks for a forced
  termination at about 30 seconds and a reserved exit code.
\<close>

theorem timeout_not_enforced:
  "SANDBOX_TIMEOUT default_settings = 30 \<and>
   run_python_code ascii_lib default_settings slow_guest sleep_code (py ''default'') ready_host
     = (mark_check @ py '' Code executed successfully in Docker sandbox.'' @ [10, 10]
          @ mark_output @ py '' Output:'' @ [10] @ py ''1'' @ [10, 10]
          @ mark_clock @ py '' Execution time: 60.00s'' @ [10]
          @ mark_disk @ py '' Results stored (ID: 1)'',
        ready_host\<lparr>launches := 1, now := 60, workspace := Some [],
          database :=
            \<lparr>code_executions =
               [\<lparr>ce_id = 1, ce_session_id = py ''default'', ce_user_id = None,
                 ce_code = sleep_code, ce_stdout = py ''1'', ce_stderr = [],
                 ce_returncode = 0, ce_created_files = [], ce_execution_time = 60\<rparr>],
             workspace_files = [], next_execution_id = 2, next_file_id = 1\<rparr>\<rparr>)"
proof -
  have s: "strip (py ''1'' @ [10]) = py ''1''"
    by (simp add: strip_def py_isspace_def py_def)
  have files: "set_minus (listdir (Some [])) (listdir (Some [])) = ([] :: pystr list)"
    by (simp add: set_minus_def listdir_def py_set_def)
  have b: "build_response ascii_lib default_settings 0 (py ''1'') [] [] 60 (Some 1)
     = mark_check @ py '' Code executed successfully in Docker sandbox.'' @ [10, 10]
          @ mark_output @ py '' Output:'' @ [10] @ py ''1'' @ [10, 10]
          @ mark_clock @ py '' Execution time: 60.00s'' @ [10]
          @ mark_disk @ py '' Results stored (ID: 1)''"
    by (simp add: build_response_def response_parts_def sanitize_output_def
        default_settings_def ascii_lib_def str_int_def digits.simps py_def)
  have "run_python_code ascii_lib default_settings slow_guest sleep_code (py ''default'')
          ready_host
     = (build_response ascii_lib default_settings 0 (py ''1'') [] [] 60 (Some 1),
        ready_host\<lparr>launches := 1, now := 60, workspace := Some [],
          database :=
            \<lparr>code_executions =
               [\<lparr>ce_id = 1, ce_session_id = py ''default'', ce_user_id = None,
                 ce_code = sleep_code, ce_stdout = py ''1'', ce_stderr = [],
                 ce_returncode = 0, ce_created_files = [], ce_execution_time = 60\<rparr>],
             workspace_files = [], next_execution_id = 2, next_file_id = 1\<rparr>\<rparr>)"
    unfolding run_python_code_completed
      [OF validate_sleep ensure_docker_image_ready_host execute_slow_guest]
    by (simp add: s strip_Nil files ready_host_def save_to_database_def
        ExecutionRepository_save_execution_def slow_guest_def scenario_of_def empty_ledger_def
        Let_def)
  then show ?thesis using b by (simp add: default_settings_def)
qed

section \<open>The filesystem diff\<close>

lemma save_to_database_created_files:
  assumes "execution_commit_error scn = None"
  shows "\<exists>row. code_executions (database (snd (save_to_database scn sid code out err rc files t w)))
                 = code_executions (database w) @ [row] \<and>
               ce_created_files row = files"
  using assms
  by (simp add: save_to_database_def ExecutionRepository_save_execution_def Let_def
      fold_save_file_metadata_executions)

lemma fold_save_file_metadata_workspace:
  "workspace (fold (\<lambda>f. save_file_metadata scn sid f eid) files w) = workspace w"
  using fold_save_file_metadata [of scn sid eid files w] by blast

lemma save_to_database_workspace:
  "workspace (snd (save_to_database scn sid code out err rc files t w)) = workspace w"
  by (simp add: save_to_database_def ExecutionRepository_save_execution_def Let_def
      fold_save_file_metadata_workspace split: option.splits)

text \<open>
  C8. For every pair of workspace snapshots, the list of created files that
  \<open>run_python_code\<close> computes, \<open>set_minus files_after files_before\<close>, holds exactly the
  names that are in the second snapshot and not in the first, each of them once, so it
  is a subset of the listing taken after the run. In every run that reaches the summary
  and stores its execution record, the \<^verbatim>\<open>created_files\<close> of that record is this
  difference of the snapshots taken before and after the container ran, and all of its
  entries are in the workspace listing as the run leaves it.
\<close>

theorem created_files_set_difference:
  "set (set_minus (listdir after) (listdir before)) = set (listdir after) - set (listdir before) \<and>
   distinct (set_minus (listdir after) (listdir before)) \<and>
   set (set_minus (listdir after) (listdir before)) \<subseteq> set (listdir after) \<and>
   (validate_code_safety code = (True, m0) \<and>
    ensure_docker_image w = ((True, m1), w1) \<and>
    execute_in_docker lib cfg scn code (script_path_of scn) w1
      = (Inr \<lparr>dict_stdout = Some raw, dict_stderr = raw_err, dict_returncode = rc\<rparr>, w2) \<and>
    execution_commit_error scn = None \<longrightarrow>
      (\<exists>row. code_executions (database (snd (run_python_code lib cfg scn code session_id w)))
               = code_executions (database w2) @ [row] \<and>
             ce_created_files row = set_minus (listdir (workspace w2)) (listdir (workspace w1)) \<and>
             set (ce_created_files row)
               \<subseteq> set (listdir (workspace (snd (run_python_code lib cfg scn code session_id w))))))"
proof -
  have diff: "set (set_minus (listdir after) (listdir before))
                = set (listdir after) - set (listdir before)"
    by (rule set_minus_set)
  have dist: "distinct (set_minus (listdir after) (listdir before))"
    by (simp add: distinct_set_minus distinct_listdir)
  have sub: "set (set_minus (listdir after) (listdir before)) \<subseteq> set (listdir after)"
    by (auto simp: set_minus_set)
  have run: "validate_code_safety code = (True, m0) \<and>
    ensure_docker_image w = ((True, m1), w1) \<and>
    execute_in_docker lib cfg scn code (script_path_of scn) w1
      = (Inr \<lparr>dict_stdout = Some raw, dict_stderr = raw_err, dict_returncode = rc\<rparr>, w2) \<and>
    execution_commit_error scn = None \<longrightarrow>
      (\<exists>row. code_executions (database (snd (run_python_code lib cfg scn code session_id w)))
               = code_executions (database w2) @ [row] \<and>
             ce_created_files row = set_minus (listdir (workspace w2)) (listdir (workspace w1)) \<and>
             set (ce_created_files row)
               \<subseteq> set (listdir (workspace (snd (run_python_code lib cfg scn code session_id w)))))"
  proof (intro impI, elim conjE)
    assume a: "validate_code_safety code = (True, m0)"
      "ensure_docker_image w = ((True, m1), w1)"
      "execute_in_docker lib cfg scn code (script_path_of scn) w1
         = (Inr \<lparr>dict_stdout = Some raw, dict_stderr = raw_err, dict_returncode = rc\<rparr>, w2)"
      "execution_commit_error scn = None"
    let ?files = "set_minus (listdir (workspace w2)) (listdir (workspace w1))"
    let ?save = "save_to_database scn session_id code (strip raw)
                   (strip raw_err) rc ?files
                   (now w2 - now w) w2"
    have r: "snd (run_python_code lib cfg scn code session_id w) = snd ?save"
      by (simp add: run_python_code_completed [OF a(1,2,3)])
    obtain row where row: "code_executions (database (snd ?save))
                 = code_executions (database w2) @ [row]" "ce_created_files row = ?files"
      using save_to_database_created_files [OF a(4)] by blast
    have "workspace (snd ?save) = workspace w2"
      by (rule save_to_database_workspace)
    then have "set (ce_created_files row) \<subseteq> set (listdir (workspace (snd ?save)))"
      using row(2) by (auto simp: set_minus_set)
    then show "\<exists>row. code_executions (database (snd (run_python_code lib cfg scn code session_id w)))
               = code_executions (database w2) @ [row] \<and>
             ce_created_files row = set_minus (listdir (workspace w2)) (listdir (workspace w1)) \<and>
             set (ce_created_files row)
               \<subseteq> set (listdir (workspace (snd (run_python_code lib cfg scn code session_id w))))"
      using row r by auto
  qed
  show ?thesis using diff dist sub run by blast
qed

lemma validate_plot: "validate_code_safety (py ''save_plot()'') = (True, [])"
  by (simp add: validate_code_safety_def dangerous_patterns_def py_def)

lemma ensure_host_with_file:
  "ensure_docker_image host_with_file = ((True, py ''Image exists''), host_with_file)"
  by (simp add: ensure_docker_image_def host_with_file_def ready_host_def)

lemma execute_writes_plot:
  "execute_in_docker ascii_lib default_settings writes_plot (py ''save_plot()'')
      (script_path_of writes_plot) host_with_file
   = (Inr \<lparr>dict_stdout = Some (py ''Plot created'' @ [10]), dict_stderr = [], dict_returncode = 0\<rparr>,
      host_with_file\<lparr>launches := 1, now := 2,
        workspace := Some [(py ''old.txt'', 5), (py ''plot.png'', 4096)]\<rparr>)"
  by (simp add: execute_in_docker_def containers_run_def prints_def captured_def
      container_config_of_def host_with_file_def ready_host_def writes_plot_def
      scenario_of_def ascii_decode py_def)

theorem created_files_set_difference_witness:
  "set_minus (listdir (Some [(py ''old.txt'', 5), (py ''plot.png'', 4096)]))
     (listdir (Some [(py ''old.txt'', 5)])) = [py ''plot.png''] \<and>
   map ce_created_files (code_executions (database (snd
     (run_python_code ascii_lib default_settings writes_plot (py ''save_plot()'')
        (py ''default'') host_with_file)))) = [[py ''plot.png'']]"
proof -
  have d: "set_minus (listdir (Some [(py ''old.txt'', 5), (py ''plot.png'', 4096)]))
     (listdir (Some [(py ''old.txt'', 5)])) = [py ''plot.png'']"
    by (simp add: set_minus_def listdir_def py_set_def py_eq_iff)
  have e: "execution_commit_error writes_plot = None"
    by (simp add: writes_plot_def scenario_of_def)
  obtain row where "code_executions (database (snd
     (run_python_code ascii_lib default_settings writes_plot (py ''save_plot()'')
        (py ''default'') host_with_file)))
      = code_executions (database (host_with_file\<lparr>launches := 1, now := 2,
        workspace := Some [(py ''old.txt'', 5), (py ''plot.png'', 4096)]\<rparr>)) @ [row]"
    "ce_created_files row
       = set_minus (listdir (workspace (host_with_file\<lparr>launches := 1, now := 2,
        workspace := Some [(py ''old.txt'', 5), (py ''plot.png'', 4096)]\<rparr>)))
           (listdir (workspace host_with_file))"
    using created_files_set_difference [where code = "py ''save_plot()''" and w = host_with_file
        and lib = ascii_lib and cfg = default_settings and scn = writes_plot
        and session_id = "py ''default''"]
      validate_plot ensure_host_with_file execute_writes_plot e
    by blast
  then have "map ce_created_files (code_executions (database (snd
     (run_python_code ascii_lib default_settings writes_plot (py ''save_plot()'')
        (py ''default'') host_with_file)))) = [[py ''plot.png'']]"
    using d by (simp add: host_with_file_def ready_host_def empty_ledger_def)
  then show ?thesis using d by simp
qed

end
